theory Spec2Isabelle
  imports Complex_Main
begin

section \<open>Numbers of the program\<close>

text \<open>
  The program computes with NumPy's float64. A finite float is modelled by the real number
  it stands for, and the three special values that NumPy returns instead of raising are
  kept apart, so that the mean of an empty array and a division by zero are what NumPy
  makes of them (a value, with a warning) and not HOL's \<open>x / 0 = 0\<close>. Signed zeros are
  not distinguished. The operations of this section and the next three are exact (rounding
  is left out, \<open>np.pi\<close> is \<open>pi\<close>); the capacity factor is modelled a second time with
  every float64 operation rounded, in the section on float64 rounding.
\<close>

datatype npfloat = Val real | PosInf | NegInf | NaN

datatype error = InvalidArgument

text \<open>\<open>a / b\<close> for a float64 \<open>a\<close> and a finite divisor \<open>b\<close>.\<close>

fun np_truediv :: "npfloat \<Rightarrow> real \<Rightarrow> npfloat" where
  "np_truediv (Val a) b =
     (if b = 0 then (if a = 0 then NaN else if 0 < a then PosInf else NegInf)
      else Val (a / b))"
| "np_truediv PosInf b = (if 0 \<le> b then PosInf else NegInf)"
| "np_truediv NegInf b = (if 0 \<le> b then NegInf else PosInf)"
| "np_truediv NaN b = NaN"

text \<open>\<open>a * b\<close> for a float64 \<open>a\<close> and a finite factor \<open>b\<close>.\<close>

fun np_mul :: "npfloat \<Rightarrow> real \<Rightarrow> npfloat" where
  "np_mul (Val a) b = Val (a * b)"
| "np_mul PosInf b = (if 0 < b then PosInf else if b < 0 then NegInf else NaN)"
| "np_mul NegInf b = (if 0 < b then NegInf else if b < 0 then PosInf else NaN)"
| "np_mul NaN b = NaN"

text \<open>
  \<open>np.mean\<close> adds the elements up and divides by their number; on an empty array that is
  \<open>0.0 / 0\<close>, which NumPy evaluates to \<open>nan\<close> under a RuntimeWarning.
\<close>

definition np_mean :: "real list \<Rightarrow> npfloat" where
  "np_mean xs = np_truediv (Val (sum_list xs)) (real (length xs))"

text \<open>Python's \<open>min(a, b)\<close> keeps the first argument unless the second is smaller.\<close>

definition py_min :: "real \<Rightarrow> real \<Rightarrow> real" where
  "py_min a b = (if b < a then b else a)"

section \<open>The functions of app.py\<close>

definition calculate_power_output :: "real \<Rightarrow> real \<Rightarrow> real \<Rightarrow> real \<Rightarrow> real" where
  "calculate_power_output wind_speed air_density blade_radius power_coefficient =
     (let swept_area = pi * blade_radius ^ 2;
          power = 0.5 * air_density * swept_area * power_coefficient * (wind_speed ^ 3)
      in power)"

text \<open>
  \<open>calculate_capacity_factor\<close> has no \<open>raise\<close> and calls nothing that raises, so its
  result is always on the \<open>Inr\<close> side.
\<close>

definition calculate_capacity_factor :: "real list \<Rightarrow> real \<Rightarrow> error + npfloat" where
  "calculate_capacity_factor power_outputs rated_power =
     (let average_power = np_mean power_outputs
      in Inr (np_truediv average_power rated_power))"

text \<open>
  A value of a preset dictionary is a Python float or a Python int; the dictionaries are
  association lists in the order of the source, looked up with \<open>map_of\<close>.
\<close>

datatype pyval = PyFloat real | PyInt int

definition presets :: "(string \<times> (string \<times> pyval) list) list" where
  "presets =
     [(''Small (1 MW)'',
         [(''blade_radius'', PyFloat 32.0),
          (''power_coefficient'', PyFloat 0.42),
          (''rated_power'', PyInt 1000)]),
      (''Medium (2 MW)'',
         [(''blade_radius'', PyFloat 45.0),
          (''power_coefficient'', PyFloat 0.45),
          (''rated_power'', PyInt 2000)]),
      (''Large (5 MW)'',
         [(''blade_radius'', PyFloat 63.0),
          (''power_coefficient'', PyFloat 0.48),
          (''rated_power'', PyInt 5000)])]"

text \<open>\<open>presets.get(preset_name, {})\<close>.\<close>

definition get_preset_parameters :: "string \<Rightarrow> (string \<times> pyval) list" where
  "get_preset_parameters preset_name =
     (case map_of presets preset_name of Some params \<Rightarrow> params | None \<Rightarrow> [])"

section \<open>The simulation in main\<close>

text \<open>
  The loop of \<open>main\<close> over \<open>wind_speeds\<close>, appending one value to \<open>power_outputs\<close> for
  each speed. \<open>main\<close> passes \<open>rated_power * 1000\<close> as \<open>rated_power_watts\<close>.
\<close>

fun power_outputs_loop ::
  "real \<Rightarrow> real \<Rightarrow> real \<Rightarrow> real \<Rightarrow> real \<Rightarrow> real \<Rightarrow> real list \<Rightarrow> real list \<Rightarrow> real list" where
  "power_outputs_loop cut_in_speed cut_out_speed air_density blade_radius power_coefficient
       rated_power_watts [] power_outputs = power_outputs"
| "power_outputs_loop cut_in_speed cut_out_speed air_density blade_radius power_coefficient
       rated_power_watts (speed # wind_speeds) power_outputs =
     (if speed < cut_in_speed \<or> speed > cut_out_speed
      then power_outputs_loop cut_in_speed cut_out_speed air_density blade_radius
             power_coefficient rated_power_watts wind_speeds (power_outputs @ [0])
      else
        (let power = calculate_power_output speed air_density blade_radius power_coefficient
         in power_outputs_loop cut_in_speed cut_out_speed air_density blade_radius
              power_coefficient rated_power_watts wind_speeds
              (power_outputs @ [py_min power rated_power_watts])))"

definition simulate ::
  "real \<Rightarrow> real \<Rightarrow> real \<Rightarrow> real \<Rightarrow> real \<Rightarrow> real \<Rightarrow> real list \<Rightarrow> real list" where
  "simulate cut_in_speed cut_out_speed air_density blade_radius power_coefficient
       rated_power_watts wind_speeds =
     power_outputs_loop cut_in_speed cut_out_speed air_density blade_radius power_coefficient
       rated_power_watts wind_speeds []"

text \<open>The energy figures that \<open>main\<close> derives from \<open>average_power\<close>.\<close>

definition hours_per_year :: int where
  "hours_per_year = 8760"

definition daily_energy :: "npfloat \<Rightarrow> npfloat" where
  "daily_energy average_power = np_truediv (np_mul average_power 24) 1000"

definition yearly_energy :: "npfloat \<Rightarrow> npfloat" where
  "yearly_energy average_power =
     np_truediv (np_mul average_power (of_int hours_per_year)) 1000000"

section \<open>The exported table\<close>

text \<open>
  \<open>np.where(condition, x, y)\<close> and the condition
  \<open>(wind_speeds >= cut_in_speed) & (wind_speeds <= cut_out_speed)\<close>, both element by element.
\<close>

definition np_where :: "bool list \<Rightarrow> 'a \<Rightarrow> 'a \<Rightarrow> 'a list" where
  "np_where condition x y = map (\<lambda>c. if c then x else y) condition"

definition operating_mask :: "real \<Rightarrow> real \<Rightarrow> real list \<Rightarrow> bool list" where
  "operating_mask cut_in_speed cut_out_speed wind_speeds =
     map2 (\<lambda>a b. a \<and> b)
       (map (\<lambda>w. w \<ge> cut_in_speed) wind_speeds)
       (map (\<lambda>w. w \<le> cut_out_speed) wind_speeds)"

text \<open>The data frame \<open>full_data\<close>: one list for each column.\<close>

record data_frame =
  Wind_Speed_m_s :: "real list"
  Power_Output_W :: "real list"
  Power_Output_kW :: "real list"
  Operating_Status :: "string list"

definition full_data :: "real \<Rightarrow> real \<Rightarrow> real list \<Rightarrow> real list \<Rightarrow> data_frame" where
  "full_data cut_in_speed cut_out_speed wind_speeds power_outputs =
     \<lparr> Wind_Speed_m_s = wind_speeds,
       Power_Output_W = power_outputs,
       Power_Output_kW = map (\<lambda>p. p / 1000) power_outputs,
       Operating_Status =
         np_where (operating_mask cut_in_speed cut_out_speed wind_speeds)
           ''Operating'' ''Idle'' \<rparr>"

section \<open>Float64 rounding and the capacity factor\<close>

text \<open>
  IEEE 754 rounds the exact result of \<open>+\<close> and \<open>/\<close> to the nearest float64, a tie going to
  the neighbour with an even significand. A float64 other than 0 is an integer of 53 bits
  (between \<open>2\<^sup>5\<^sup>2\<close> and \<open>2\<^sup>5\<^sup>3\<close> in absolute value) times a power of two; the exponent range is
  not bounded here, so overflow and subnormal numbers are left out.
\<close>

definition round_half_even :: "real \<Rightarrow> int" where
  "round_half_even y =
     (let n = \<lfloor>y\<rfloor>; d = y - of_int n
      in if d < 1/2 then n else if 1/2 < d then n + 1 else if even n then n else n + 1)"

definition f64_exponent :: "real \<Rightarrow> int" where
  "f64_exponent x = \<lfloor>log 2 \<bar>x\<bar>\<rfloor> - 52"

definition round_f64 :: "real \<Rightarrow> real" where
  "round_f64 x =
     (if x = 0 then 0
      else of_int (round_half_even (x / 2 powi f64_exponent x)) * 2 powi f64_exponent x)"

definition f64_add :: "real \<Rightarrow> real \<Rightarrow> real" where
  "f64_add a b = round_f64 (a + b)"

text \<open>
  \<open>np.mean\<close> adds a float64 array up with NumPy's pairwise summation: fewer than 8 elements
  are added from left to right; up to 128 elements are added in 8 lanes (\<open>r[j] += a[i + j]\<close>
  over whole blocks of 8), the lanes are combined as
  \<open>((r0 + r1) + (r2 + r3)) + ((r4 + r5) + (r6 + r7))\<close> and the remaining elements are added
  to that; a longer array is split at \<open>n / 2\<close> rounded down to a multiple of 8 and the sums
  of the two parts are added.
\<close>

function f64_unrolled :: "real list \<Rightarrow> real list \<Rightarrow> real list \<times> real list" where
  "f64_unrolled r a =
     (if 8 \<le> length a then f64_unrolled (map2 f64_add r (take 8 a)) (drop 8 a) else (r, a))"
  by pat_completeness auto
termination
  by (relation "measure (\<lambda>(r, a). length a)") auto

declare f64_unrolled.simps [simp del]

function f64_pairwise_sum :: "real list \<Rightarrow> real" where
  "f64_pairwise_sum a =
     (if length a < 8 then foldl f64_add 0 a
      else if length a \<le> 128 then
        (case f64_unrolled (take 8 a) (drop 8 a) of
           (r, rest) \<Rightarrow>
             foldl f64_add
               (f64_add (f64_add (f64_add (r ! 0) (r ! 1)) (f64_add (r ! 2) (r ! 3)))
                        (f64_add (f64_add (r ! 4) (r ! 5)) (f64_add (r ! 6) (r ! 7))))
               rest)
      else
        f64_add
          (f64_pairwise_sum (take (length a div 2 - (length a div 2) mod 8) a))
          (f64_pairwise_sum (drop (length a div 2 - (length a div 2) mod 8) a)))"
  by pat_completeness auto
termination
  by (relation "measure length") auto

declare f64_pairwise_sum.simps [simp del]

text \<open>\<open>a / b\<close> in float64: \<open>np_truediv\<close> with the quotient rounded.\<close>

fun np_truediv_f64 :: "npfloat \<Rightarrow> real \<Rightarrow> npfloat" where
  "np_truediv_f64 (Val a) b =
     (if b = 0 then (if a = 0 then NaN else if 0 < a then PosInf else NegInf)
      else Val (round_f64 (a / b)))"
| "np_truediv_f64 PosInf b = (if 0 \<le> b then PosInf else NegInf)"
| "np_truediv_f64 NegInf b = (if 0 \<le> b then NegInf else PosInf)"
| "np_truediv_f64 NaN b = NaN"

definition np_mean_f64 :: "real list \<Rightarrow> npfloat" where
  "np_mean_f64 xs = np_truediv_f64 (Val (f64_pairwise_sum xs)) (real (length xs))"

text \<open>\<open>calculate_capacity_factor\<close> as float64 computes it.\<close>

definition calculate_capacity_factor_f64 :: "real list \<Rightarrow> real \<Rightarrow> error + npfloat" where
  "calculate_capacity_factor_f64 power_outputs rated_power =
     (let average_power = np_mean_f64 power_outputs
      in Inr (np_truediv_f64 average_power rated_power))"


section \<open>Auxiliary facts\<close>

lemma py_min_eq_min: "py_min a b = min a b"
  by (simp add: py_min_def min_def)

lemma calculate_power_output_formula:
  "calculate_power_output v rho r cp = 0.5 * rho * (pi * r ^ 2) * cp * v ^ 3"
  by (simp add: calculate_power_output_def Let_def)

text \<open>The loop appends, to what it was given, the image of the speeds under its body.\<close>

lemma power_outputs_loop_map:
  "power_outputs_loop ci co rho r cp rated ws acc =
     acc @ map (\<lambda>speed. if speed < ci \<or> speed > co then 0
                         else min (calculate_power_output speed rho r cp) rated) ws"
  by (induction ws arbitrary: acc) (simp_all add: Let_def py_min_eq_min)

lemma simulate_map:
  "simulate ci co rho r cp rated ws =
     map (\<lambda>speed. if speed < ci \<or> speed > co then 0
                   else min (calculate_power_output speed rho r cp) rated) ws"
  by (simp add: simulate_def power_outputs_loop_map)




lemma operating_status_nth:
  assumes "i < length wind_speeds"
  shows "Operating_Status (full_data cut_in_speed cut_out_speed wind_speeds power_outputs) ! i =
           (if cut_in_speed \<le> wind_speeds ! i \<and> wind_speeds ! i \<le> cut_out_speed
            then ''Operating'' else ''Idle'')"
  using assms by (simp add: full_data_def np_where_def operating_mask_def)

subsection \<open>Bounds on pi\<close>

text \<open>
  The partial sums of the arctangent series bracket \<open>arctan x\<close> for \<open>0 \<le> x \<le> 1\<close>
  (Leibniz); with Machin's formula they give \<open>pi\<close> to five decimal places.
\<close>

lemma arctan_series_bounds:
  fixes x :: real
  assumes "0 \<le> x" and "x \<le> 1"
  shows "(\<Sum>i<2*n. (-1)^i * (1 / real (i * 2 + 1) * x ^ (i * 2 + 1))) \<le> arctan x"
    and "arctan x \<le> (\<Sum>i<2*n+1. (-1)^i * (1 / real (i * 2 + 1) * x ^ (i * 2 + 1)))"
proof -
  let ?a = "\<lambda>n. 1 / real (n * 2 + 1) * x ^ (n * 2 + 1)"
  have abs: "\<bar>x\<bar> \<le> 1" using assms by simp
  have zero: "?a \<longlonglongrightarrow> 0" by (rule zeroseq_arctan_series [OF abs])
  have pos: "\<And>n. 0 \<le> ?a n" using assms by simp
  have mono: "\<And>n. ?a (Suc n) \<le> ?a n"
  proof -
    fix n
    have "x ^ (Suc n * 2 + 1) \<le> x ^ (n * 2 + 1)"
      using assms by (intro power_decreasing) simp_all
    moreover have "1 / real (Suc n * 2 + 1) \<le> 1 / real (n * 2 + 1)"
      by (simp add: frac_le)
    moreover have "0 \<le> x ^ (Suc n * 2 + 1)" using assms by simp
    ultimately show "?a (Suc n) \<le> ?a n"
      by (intro mult_mono) simp_all
  qed
  have eq: "arctan x = (\<Sum>k. (-1)^k * ?a k)" by (rule arctan_series [OF abs])
  show "(\<Sum>i<2*n. (-1)^i * ?a i) \<le> arctan x"
    unfolding eq by (rule summable_Leibniz'(2) [OF zero pos mono])
  show "arctan x \<le> (\<Sum>i<2*n+1. (-1)^i * ?a i)"
    unfolding eq by (rule summable_Leibniz'(4) [OF zero pos mono])
qed

lemma arctan_fifth_lower: "(1/5 - 1/375 + 1/15625 - 1/546875 :: real) \<le> arctan (1/5)"
  using arctan_series_bounds(1) [of "1/5" 2] by (simp add: eval_nat_numeral)

lemma arctan_fifth_upper:
  "arctan (1/5) \<le> (1/5 - 1/375 + 1/15625 - 1/546875 + 1/17578125 :: real)"
  using arctan_series_bounds(2) [of "1/5" 2] by (simp add: eval_nat_numeral)

lemma arctan_239_upper: "arctan (1/239) \<le> (1/239 :: real)"
  using arctan_series_bounds(2) [of "1/239" 0] by simp

lemma arctan_239_lower: "(1/239 - 1/40955757 :: real) \<le> arctan (1/239)"
  using arctan_series_bounds(1) [of "1/239" 1] by (simp add: eval_nat_numeral)

lemma pi_lower: "3.14159 < pi"
  using machin arctan_fifth_lower arctan_239_upper by simp

lemma pi_upper: "pi < 3.141593"
  using machin arctan_fifth_upper arctan_239_lower by simp

subsection \<open>Float64 rounding\<close>














lemma capacity_factor_f64_empty: "calculate_capacity_factor_f64 [] rated_power = Inr NaN"
  by (simp add: calculate_capacity_factor_f64_def np_mean_f64_def
        f64_pairwise_sum.simps [of "[]"])

section \<open>The power curve\<close>

text \<open>
  C3: for every wind speed, air density, blade radius and power coefficient (no condition on
  any of them) \<open>calculate_power_output\<close> returns
  \<open>0.5 * air_density * (pi * blade_radius\<^sup>2) * power_coefficient * wind_speed\<^sup>3\<close>;
  it takes no cut-in speed, cut-out speed or rated power, and clips nothing. With blade
  radius 45.0, power coefficient 0.45, air density 1.225 and wind speed 7 the value is
  \<open>191442.234375 * pi\<close>, which lies between 601433 and 601434 W, less than 47 W (under
  one part in ten thousand) away from the 601480 W that the specification quotes.
\<close>

theorem power_formula_and_example:
  "calculate_power_output wind_speed air_density blade_radius power_coefficient =
     0.5 * air_density * (pi * blade_radius ^ 2) * power_coefficient * wind_speed ^ 3
   \<and> 601433 < calculate_power_output 7 1.225 45.0 0.45
   \<and> calculate_power_output 7 1.225 45.0 0.45 < 601434
   \<and> \<bar>calculate_power_output 7 1.225 45.0 0.45 - 601480\<bar> < 47"
proof -
  have ex: "calculate_power_output 7 1.225 45.0 0.45 = 191442.234375 * pi"
    by (simp add: calculate_power_output_formula)
  have lo: "601433 < 191442.234375 * pi" using pi_lower by simp
  have hi: "191442.234375 * pi < 601434" using pi_upper by simp
  show ?thesis
    unfolding ex using lo hi by (simp add: calculate_power_output_formula abs_less_iff)
qed

section \<open>The simulation loop\<close>

text \<open>
  C1: the output of the simulation loop at index \<open>i\<close> is 0 when the speed at \<open>i\<close> is
  below the cut-in speed or above the cut-out speed (strictly: a speed equal to either
  limit is operating), and otherwise it is the smaller of the power-curve value and the
  rated power; in particular a speed inside the operating range whose power-curve value
  exceeds the rated power gives the rated power, not 0. This holds for all parameters,
  among them those with \<open>cut_in_speed < cut_out_speed\<close> and a positive rated power.
\<close>

theorem simulate_nth:
  assumes "i < length wind_speeds"
  shows "simulate cut_in_speed cut_out_speed air_density blade_radius power_coefficient
             rated_power_watts wind_speeds ! i =
           (if wind_speeds ! i < cut_in_speed \<or> wind_speeds ! i > cut_out_speed then 0
            else min (calculate_power_output (wind_speeds ! i) air_density blade_radius
                        power_coefficient) rated_power_watts)
         \<and> (cut_in_speed \<le> wind_speeds ! i \<and> wind_speeds ! i \<le> cut_out_speed
              \<and> rated_power_watts < calculate_power_output (wind_speeds ! i) air_density
                                       blade_radius power_coefficient
              \<longrightarrow> simulate cut_in_speed cut_out_speed air_density blade_radius
                    power_coefficient rated_power_watts wind_speeds ! i = rated_power_watts)"
  using assms by (auto simp add: simulate_map)

theorem simulate_nth_witness:
  "(3::nat) < length [1, 3, 7, 20, 25, 26 :: real]
   \<and> (3::real) \<le> [1, 3, 7, 20, 25, 26] ! 3 \<and> [1, 3, 7, 20, 25, 26] ! 3 \<le> (25::real)
   \<and> 2000000 < calculate_power_output ([1, 3, 7, 20, 25, 26] ! 3) 1.225 45 0.45
   \<and> simulate 3 25 1.225 45 0.45 2000000 [1, 3, 7, 20, 25, 26] ! 3 = 2000000"
  using simulate_nth [of 3 "[1, 3, 7, 20, 25, 26]" 3 25 "1.225" 45 "0.45" 2000000]
        pi_ge_two
  by (simp add: calculate_power_output_formula)

text \<open>
  C5: for wind speeds that are all at least 0 and a positive air density, blade radius, power
  coefficient and rated power, the output of the simulation loop has the length of its
  input, and every output value lies between 0 and the rated power.
\<close>

theorem simulate_length_and_range:
  assumes "\<forall>s\<in>set wind_speeds. 0 \<le> s"
    and "0 < air_density" and "0 < blade_radius" and "0 < power_coefficient"
    and "0 < rated_power_watts"
  shows "length (simulate cut_in_speed cut_out_speed air_density blade_radius
                   power_coefficient rated_power_watts wind_speeds) = length wind_speeds
         \<and> (\<forall>p\<in>set (simulate cut_in_speed cut_out_speed air_density blade_radius
                        power_coefficient rated_power_watts wind_speeds).
               0 \<le> p \<and> p \<le> rated_power_watts)"
proof -
  have "0 \<le> calculate_power_output s air_density blade_radius power_coefficient"
    if "s \<in> set wind_speeds" for s
    using that assms by (simp add: calculate_power_output_formula)
  then show ?thesis
    using assms(5) by (auto simp add: simulate_map)
qed

theorem simulate_length_and_range_witness:
  "length (simulate 3 25 1.225 45 0.45 2000000 [1, 7, 20]) = 3
   \<and> 0 \<le> simulate 3 25 1.225 45 0.45 2000000 [1, 7, 20] ! 1
   \<and> simulate 3 25 1.225 45 0.45 2000000 [1, 7, 20] ! 1 \<le> 2000000"
proof -
  have speeds: "\<forall>s\<in>set [1, 7, 20 :: real]. 0 \<le> s"
    by simp
  have range: "length (simulate 3 25 1.225 45 0.45 2000000 [1, 7, 20]) = length [1, 7, 20 :: real]
      \<and> (\<forall>p\<in>set (simulate 3 25 1.225 45 0.45 2000000 [1, 7, 20]). 0 \<le> p \<and> p \<le> 2000000)"
    by (rule simulate_length_and_range [OF speeds]) simp_all
  then have len: "length (simulate 3 25 1.225 45 0.45 2000000 [1, 7, 20]) = 3"
    by simp
  then have "simulate 3 25 1.225 45 0.45 2000000 [1, 7, 20] ! 1
      \<in> set (simulate 3 25 1.225 45 0.45 2000000 [1, 7, 20])"
    by (simp del: One_nat_def)
  with range len show ?thesis
    by blast
qed

section \<open>The metrics\<close>

text \<open>
  C2, as the code has it: applied to an empty \<open>power_outputs\<close>, \<open>calculate_capacity_factor\<close>
  raises no error. The mean of the empty sequence is NaN, and the function returns
  NaN, whatever the rated power.
\<close>

theorem capacity_factor_empty: "calculate_capacity_factor [] rated_power = Inr NaN"
  by (simp add: calculate_capacity_factor_def np_mean_def)

text \<open>
  C2 as stated (an empty \<open>power_outputs\<close> fails with InvalidArgument and returns no value)
  does not hold: with a rated power of 2000000 W the call returns NaN.
\<close>

theorem capacity_factor_empty_counterexample:
  "calculate_capacity_factor [] 2000000 \<noteq> Inl InvalidArgument \<and>
   calculate_capacity_factor [] 2000000 = Inr NaN"
  by (simp add: calculate_capacity_factor_def np_mean_def)




text \<open>
  C6: for every average power, the daily energy is \<open>average_power * 24 / 1000\<close> and the
  yearly energy is \<open>average_power * 8760 / 1000000\<close>, with the constant of 8760 hours in a
  year. (A NaN average, the mean of no samples, gives NaN for both.)
\<close>

theorem energy_figures:
  "daily_energy (Val average_power) = Val (average_power * 24 / 1000)
   \<and> yearly_energy (Val average_power) = Val (average_power * 8760 / 1000000)
   \<and> hours_per_year = 8760
   \<and> daily_energy NaN = NaN \<and> yearly_energy NaN = NaN"
  by (simp add: daily_energy_def yearly_energy_def hours_per_year_def)

section \<open>The exported table\<close>

text \<open>
  C7: for every sample, the exported status label is \<open>Operating\<close> if and only if the speed
  lies between the cut-in and the cut-out speed, both limits included; that is, if and
  only if the condition under which the simulation loop writes 0 (speed strictly below
  cut-in or strictly above cut-out) is false.
\<close>

theorem operating_label_iff:
  assumes "i < length wind_speeds"
  shows "(Operating_Status (full_data cut_in_speed cut_out_speed wind_speeds power_outputs) ! i
            = ''Operating'')
           = (cut_in_speed \<le> wind_speeds ! i \<and> wind_speeds ! i \<le> cut_out_speed)
         \<and> (Operating_Status (full_data cut_in_speed cut_out_speed wind_speeds power_outputs) ! i
            = ''Operating'')
           = (\<not> (wind_speeds ! i < cut_in_speed \<or> wind_speeds ! i > cut_out_speed))"
  using assms by (auto simp add: operating_status_nth)

theorem operating_label_iff_witness:
  "(1::nat) < length [1, 3, 25, 26 :: real] \<and>
   Operating_Status (full_data 3 25 [1, 3, 25, 26] [0, 1, 2, 0]) ! 1 = ''Operating''"
  using operating_label_iff [of 1 "[1, 3, 25, 26]" 3 25 "[0, 1, 2, 0]"] by simp

text \<open>
  C10: in the exported full data set, built from the wind speeds and the output of the
  simulation loop on them, a row whose status label is \<open>Idle\<close> has a power output of
  exactly 0; so a power output other than 0 appears only on rows labelled \<open>Operating\<close>.
\<close>

theorem idle_rows_have_zero_power:
  assumes "i < length wind_speeds"
  shows "(Operating_Status (full_data cut_in_speed cut_out_speed wind_speeds
              (simulate cut_in_speed cut_out_speed air_density blade_radius
                 power_coefficient rated_power_watts wind_speeds)) ! i = ''Idle''
          \<longrightarrow> Power_Output_W (full_data cut_in_speed cut_out_speed wind_speeds
              (simulate cut_in_speed cut_out_speed air_density blade_radius
                 power_coefficient rated_power_watts wind_speeds)) ! i = 0)
       \<and> (Power_Output_W (full_data cut_in_speed cut_out_speed wind_speeds
              (simulate cut_in_speed cut_out_speed air_density blade_radius
                 power_coefficient rated_power_watts wind_speeds)) ! i \<noteq> 0
          \<longrightarrow> Operating_Status (full_data cut_in_speed cut_out_speed wind_speeds
              (simulate cut_in_speed cut_out_speed air_density blade_radius
                 power_coefficient rated_power_watts wind_speeds)) ! i = ''Operating'')"
proof -
  have p: "Power_Output_W (full_data cut_in_speed cut_out_speed wind_speeds
              (simulate cut_in_speed cut_out_speed air_density blade_radius
                 power_coefficient rated_power_watts wind_speeds)) ! i
           = simulate cut_in_speed cut_out_speed air_density blade_radius
               power_coefficient rated_power_watts wind_speeds ! i"
    by (simp add: full_data_def)
  show ?thesis
    unfolding p using assms by (auto simp add: operating_status_nth simulate_map)
qed

theorem idle_rows_have_zero_power_witness:
  "(3::nat) < length [1, 3, 25, 26 :: real]
   \<and> Operating_Status (full_data 3 25 [1, 3, 25, 26]
        (simulate 3 25 1.225 45 0.45 2000000 [1, 3, 25, 26])) ! 3 = ''Idle''
   \<and> Power_Output_W (full_data 3 25 [1, 3, 25, 26]
        (simulate 3 25 1.225 45 0.45 2000000 [1, 3, 25, 26])) ! 3 = 0
   \<and> Power_Output_W (full_data 3 25 [1, 3, 25, 26]
        (simulate 3 25 1.225 45 0.45 2000000 [1, 3, 25, 26])) ! 1 \<noteq> 0
   \<and> Operating_Status (full_data 3 25 [1, 3, 25, 26]
        (simulate 3 25 1.225 45 0.45 2000000 [1, 3, 25, 26])) ! 1 = ''Operating''"
proof -
  have idle: "Operating_Status (full_data 3 25 [1, 3, 25, 26]
        (simulate 3 25 1.225 45 0.45 2000000 [1, 3, 25, 26])) ! 3 = ''Idle''"
    by (simp add: operating_status_nth)
  have power: "Power_Output_W (full_data 3 25 [1, 3, 25, 26]
        (simulate 3 25 1.225 45 0.45 2000000 [1, 3, 25, 26])) ! 1 \<noteq> 0"
    by (simp add: full_data_def simulate_map calculate_power_output_formula min_def)
  have len3: "(3::nat) < length [1, 3, 25, 26 :: real]" and
       len1: "(1::nat) < length [1, 3, 25, 26 :: real]"
    by simp_all
  show ?thesis
    using idle_rows_have_zero_power [OF len3, of 3 25 "1.225" 45 "0.45" 2000000]
          idle_rows_have_zero_power [OF len1, of 3 25 "1.225" 45 "0.45" 2000000]
          idle power len3
    by blast
qed

section \<open>The presets\<close>

text \<open>
  C9: the preset lookup is total and raises nothing: for the names \<open>Small (1 MW)\<close>,
  \<open>Medium (2 MW)\<close> and \<open>Large (5 MW)\<close> it returns the constant record of that model
  (blade radius 32.0, 45.0, 63.0; power coefficient 0.42, 0.45, 0.48; rated power 1000,
  2000, 5000), and for every other name it returns the empty mapping.
\<close>

theorem preset_lookup:
  "get_preset_parameters ''Small (1 MW)'' =
     [(''blade_radius'', PyFloat 32.0), (''power_coefficient'', PyFloat 0.42),
      (''rated_power'', PyInt 1000)]
   \<and> get_preset_parameters ''Medium (2 MW)'' =
     [(''blade_radius'', PyFloat 45.0), (''power_coefficient'', PyFloat 0.45),
      (''rated_power'', PyInt 2000)]
   \<and> get_preset_parameters ''Large (5 MW)'' =
     [(''blade_radius'', PyFloat 63.0), (''power_coefficient'', PyFloat 0.48),
      (''rated_power'', PyInt 5000)]
   \<and> (preset_name \<notin> {''Small (1 MW)'', ''Medium (2 MW)'', ''Large (5 MW)''}
        \<longrightarrow> get_preset_parameters preset_name = [])"
  by (simp add: get_preset_parameters_def presets_def)

theorem preset_lookup_witness:
  "''Custom'' \<notin> {''Small (1 MW)'', ''Medium (2 MW)'', ''Large (5 MW)''}
   \<and> get_preset_parameters ''Custom'' = []"
  using preset_lookup [of "''Custom''"] by simp

end
